theory Spec2Isabelle
  imports Main "HOL-Library.Word"
begin

unbundle bit_operations_syntax

section \<open>ARM performance counter support: data model\<close>

text \<open>
  A shallow embedding of \<^verbatim>\<open>drivers/perf/arm_pmu.c\<close>. C \<^verbatim>\<open>int\<close> results are HOL
  integers (a negative result is an error code), \<^verbatim>\<open>u64\<close>, \<^verbatim>\<open>s64\<close> and
  \<^verbatim>\<open>local64_t\<close> are 64-bit words (\<^verbatim>\<open>s64\<close> comparisons read them with \<open>sint\<close>),
  flag fields are 32-bit words. Pointers to events are references into a heap
  \<open>nat \<Rightarrow> perf_event\<close>; the hardware behind the capability callbacks is an abstract
  state \<open>'h\<close> that every callback receives and returns.
\<close>

type_synonym u64 = "64 word"
type_synonym u32 = "32 word"

text \<open>
  Error numbers. The file only names them; their values are those of the kernel's
  \<^verbatim>\<open>errno-base.h\<close> and \<^verbatim>\<open>errno.h\<close>, which are not among the sources. \<open>ENODEV\<close> is the
  kernel's "no such device" code; the driver never returns it.
\<close>

definition ENOENT :: int where "ENOENT = 2"
definition ENODEV :: int where "ENODEV = 19"
definition EINVAL :: int where "EINVAL = 22"
definition EOPNOTSUPP :: int where "EOPNOTSUPP = 95"

text \<open>
  Flags and states of \<^verbatim>\<open>linux/perf_event.h\<close> (not among the sources), with the values of
  that header.
\<close>

definition PERF_HES_STOPPED :: u32 where "PERF_HES_STOPPED = 1"
definition PERF_HES_UPTODATE :: u32 where "PERF_HES_UPTODATE = 2"

definition PERF_EF_START :: u32 where "PERF_EF_START = 1"
definition PERF_EF_RELOAD :: u32 where "PERF_EF_RELOAD = 2"

definition PERF_EVENT_STATE_OFF :: int where "PERF_EVENT_STATE_OFF = - 1"
definition PERF_EVENT_STATE_ACTIVE :: int where "PERF_EVENT_STATE_ACTIVE = 1"

datatype cpu_pm_event =
  CPU_PM_ENTER | CPU_PM_ENTER_FAILED | CPU_PM_EXIT
  | CPU_CLUSTER_PM_ENTER | CPU_CLUSTER_PM_ENTER_FAILED | CPU_CLUSTER_PM_EXIT


datatype arm_pmu_state = ARM_PMU_STATE_OFF | ARM_PMU_STATE_GOING_DOWN | ARM_PMU_STATE_RUNNING

text \<open>
  The enumeration bounds and the sentinel of the generic cache event table are
  declared in headers that are not among the sources; they are parameters of the model.
\<close>

record perf_abi =
  PERF_COUNT_HW_CACHE_MAX :: nat
  PERF_COUNT_HW_CACHE_OP_MAX :: nat
  PERF_COUNT_HW_CACHE_RESULT_MAX :: nat
  CACHE_OP_UNSUPPORTED :: u32

record hw_perf_event =
  idx :: int
  hwc_state :: u32
  config_base :: u64
  config :: u64
  event_base :: u64
  sample_period :: u64
  last_period :: u64
  period_left :: u64
  prev_count :: u64

text \<open>
  \<open>sample_branch_stack\<close> is the \<^verbatim>\<open>PERF_SAMPLE_BRANCH_STACK\<close> bit of
  \<^verbatim>\<open>attr.sample_type\<close>, which is all \<^verbatim>\<open>has_branch_stack\<close> reads.
\<close>

record perf_event_attr =
  attr_type :: int
  attr_config :: u64
  attr_sample_period :: u64
  sample_branch_stack :: bool
  enable_on_exec :: bool
  exclude_idle :: bool
  exclude_user :: bool
  exclude_kernel :: bool
  exclude_hv :: bool

text \<open>
  \<open>pmu\<close> is the address of the event's \<^verbatim>\<open>struct pmu\<close>; \<open>group_leader\<close> and
  \<open>sibling_list\<close> are references into the heap of events. \<open>is_software\<close> is what the
  kernel's \<^verbatim>\<open>is_software_event\<close> reports for the event.
\<close>

record perf_event =
  attr :: perf_event_attr
  pmu :: nat
  cpu :: int
  state :: int
  count :: u64
  hw :: hw_perf_event
  group_leader :: nat
  sibling_list :: "nat list"
  is_software :: bool

type_synonym event_heap = "nat \<Rightarrow> perf_event"

text \<open>
  The per-core state. \<open>used_mask\<close> is the bitmap of slots in use, as the set of its set
  bits; \<open>events\<close> maps a slot to the event that owns it (\<open>None\<close> is \<^verbatim>\<open>NULL\<close>).
\<close>

record pmu_hw_events =
  events :: "nat \<rightharpoonup> nat"
  used_mask :: "nat set"
  irq :: int

record arm_pmu_platdata =
  irq_flags :: u64

text \<open>
  The counter bank. \<open>pmu_id\<close> is the address of the embedded \<^verbatim>\<open>struct pmu\<close>;
  \<open>hw_events\<close> is the per-core data, indexed by core; \<open>platdata\<close> is what
  \<^verbatim>\<open>armpmu_get_platdata\<close> returns. The capability callbacks act on the hardware state
  \<open>'h\<close>; \<open>get_event_idx\<close> returns the slot (or a negative error) and the per-core
  state it leaves behind.
\<close>

record 'h arm_pmu =
  pmu_id :: nat
  name :: string
  active_irqs :: "nat set"
  supported_cpus :: "nat set"
  num_events :: nat
  max_period :: u64
  pmu_state :: arm_pmu_state
  percpu_irq :: int
  platdata :: "arm_pmu_platdata option"
  hw_events :: "nat \<Rightarrow> pmu_hw_events"
  enable :: "perf_event \<Rightarrow> 'h \<Rightarrow> 'h"
  disable :: "perf_event \<Rightarrow> 'h \<Rightarrow> 'h"
  get_event_idx :: "pmu_hw_events \<Rightarrow> perf_event \<Rightarrow> int \<times> pmu_hw_events"
  set_event_filter :: "(hw_perf_event \<Rightarrow> perf_event_attr \<Rightarrow> int \<times> hw_perf_event) option"
  read_counter :: "perf_event \<Rightarrow> 'h \<Rightarrow> u64"
  write_counter :: "perf_event \<Rightarrow> u64 \<Rightarrow> 'h \<Rightarrow> 'h"
  start :: "'h \<Rightarrow> 'h"
  stop :: "'h \<Rightarrow> 'h"
  reset :: "('h \<Rightarrow> 'h) option"
  map_event :: "perf_event \<Rightarrow> int"

section \<open>Event mapping\<close>

definition armpmu_map_cache_event ::
  "perf_abi \<Rightarrow> (nat \<Rightarrow> nat \<Rightarrow> nat \<Rightarrow> u32) option \<Rightarrow> u64 \<Rightarrow> int" where
  "armpmu_map_cache_event abi cache_map config' =
     (let cache_type = (ucast (drop_bit 0 config' AND 0xff) :: u32) in
      if PERF_COUNT_HW_CACHE_MAX abi \<le> unat cache_type then - EINVAL
      else
        let cache_op = (ucast (drop_bit 8 config' AND 0xff) :: u32) in
        if PERF_COUNT_HW_CACHE_OP_MAX abi \<le> unat cache_op then - EINVAL
        else
          let cache_result = (ucast (drop_bit 16 config' AND 0xff) :: u32) in
          if PERF_COUNT_HW_CACHE_RESULT_MAX abi \<le> unat cache_result then - EINVAL
          else
            (case cache_map of
               None \<Rightarrow> - ENOENT
             | Some tbl \<Rightarrow>
                 let ret = tbl (unat cache_type) (unat cache_op) (unat cache_result) in
                 if ret = CACHE_OP_UNSUPPORTED abi then - ENOENT else sint ret))"

definition armpmu_map_raw_event :: "u32 \<Rightarrow> u64 \<Rightarrow> int" where
  "armpmu_map_raw_event raw_event_mask config' =
     sint (ucast (config' AND ucast raw_event_mask) :: u32)"

section \<open>Period accounting\<close>

definition armpmu_event_set_period ::
  "'h arm_pmu \<Rightarrow> perf_event \<Rightarrow> 'h \<Rightarrow> int \<times> perf_event \<times> 'h" where
  "armpmu_event_set_period armpmu event h =
     (let hwc = hw event;
          left = period_left hwc;
          period = sample_period hwc;
          ret = 0;
          (left, hwc, ret) =
            (if sint left \<le> sint (- period)
             then (period, hwc\<lparr>period_left := period, last_period := period\<rparr>, 1)
             else (left, hwc, ret));
          (left, hwc, ret) =
            (if sint left \<le> 0
             then (left + period, hwc\<lparr>period_left := left + period, last_period := period\<rparr>, 1)
             else (left, hwc, ret));
          left = (if drop_bit 1 (max_period armpmu) < left
                  then drop_bit 1 (max_period armpmu) else left);
          hwc = hwc\<lparr>prev_count := - left\<rparr>;
          event = event\<lparr>hw := hwc\<rparr>;
          h = write_counter armpmu event ((- left) AND 0xffffffff) h
      in (ret, event, h))"

text \<open>
  The tail of \<^verbatim>\<open>armpmu_event_update\<close>, reached when \<^verbatim>\<open>local64_cmpxchg\<close> found
  \<open>prev_count\<close> still equal to \<open>prev_raw_count\<close> and stored \<open>new_raw_count\<close>.
\<close>

definition event_update_commit ::
  "'h arm_pmu \<Rightarrow> u64 \<Rightarrow> u64 \<Rightarrow> perf_event \<Rightarrow> perf_event" where
  "event_update_commit armpmu prev_raw_count new_raw_count event =
     (let hwc = (hw event)\<lparr>prev_count := new_raw_count\<rparr>;
          delta = (new_raw_count - prev_raw_count) AND max_period armpmu;
          event = event\<lparr>count := count event + delta\<rparr>;
          hwc = hwc\<lparr>period_left := period_left hwc - delta\<rparr>
      in event\<lparr>hw := hwc\<rparr>)"

text \<open>
  \<^verbatim>\<open>armpmu_event_update\<close>. The second argument is the interference of other contexts on
  this core (the overflow interrupt), one entry per pass of the \<^verbatim>\<open>again:\<close> loop: the
  entry runs between the two reads and the \<^verbatim>\<open>local64_cmpxchg\<close>. When the schedule is
  used up nothing interferes any more. A caller that runs alone passes \<open>[]\<close>.
\<close>

fun armpmu_event_update ::
  "'h arm_pmu \<Rightarrow> (perf_event \<times> 'h \<Rightarrow> perf_event \<times> 'h) list \<Rightarrow> perf_event \<Rightarrow> 'h
     \<Rightarrow> u64 \<times> perf_event \<times> 'h" where
  "armpmu_event_update armpmu [] event h =
     (let prev_raw_count = prev_count (hw event);
          new_raw_count = read_counter armpmu event h
      in (new_raw_count, event_update_commit armpmu prev_raw_count new_raw_count event, h))"
| "armpmu_event_update armpmu (irq_ctx # sched) event h =
     (let prev_raw_count = prev_count (hw event);
          new_raw_count = read_counter armpmu event h;
          eh = irq_ctx (event, h)
      in if prev_count (hw (fst eh)) \<noteq> prev_raw_count
         then armpmu_event_update armpmu sched (fst eh) (snd eh)
         else (new_raw_count,
               event_update_commit armpmu prev_raw_count new_raw_count (fst eh), snd eh))"

section \<open>Start and stop\<close>

definition armpmu_stop :: "'h arm_pmu \<Rightarrow> perf_event \<Rightarrow> u32 \<Rightarrow> 'h \<Rightarrow> perf_event \<times> 'h" where
  "armpmu_stop armpmu event flags h =
     (if hwc_state (hw event) AND PERF_HES_STOPPED = 0 then
        let h = disable armpmu event h;
            (raw, event, h) = armpmu_event_update armpmu [] event h;
            event = event\<lparr>hw := (hw event)\<lparr>hwc_state :=
                      hwc_state (hw event) OR (PERF_HES_STOPPED OR PERF_HES_UPTODATE)\<rparr>\<rparr>
        in (event, h)
      else (event, h))"

definition armpmu_start :: "'h arm_pmu \<Rightarrow> perf_event \<Rightarrow> u32 \<Rightarrow> 'h \<Rightarrow> perf_event \<times> 'h" where
  "armpmu_start armpmu event flags h =
     (let event = event\<lparr>hw := (hw event)\<lparr>hwc_state := 0\<rparr>\<rparr>;
          (ret, event, h) = armpmu_event_set_period armpmu event h;
          h = enable armpmu event h
      in (event, h))"

section \<open>Adding an event to a core\<close>

text \<open>
  \<^verbatim>\<open>cpumask_test_cpu\<close> on a core number held in a C \<^verbatim>\<open>int\<close>; a number
  outside the mask's range is not in the mask.
\<close>

definition cpumask_test_cpu :: "int \<Rightarrow> nat set \<Rightarrow> bool" where
  "cpumask_test_cpu c m = (0 \<le> c \<and> nat c \<in> m)"

text \<open>
  \<^verbatim>\<open>armpmu_add\<close>, running on core \<open>this_cpu\<close> (\<^verbatim>\<open>smp_processor_id()\<close>, whose per-core
  data \<^verbatim>\<open>this_cpu_ptr\<close> selects). \<open>event\<close> is a reference into the heap.
\<close>

definition armpmu_add ::
  "'h arm_pmu \<Rightarrow> nat \<Rightarrow> nat \<Rightarrow> u32 \<Rightarrow> event_heap \<Rightarrow> 'h
     \<Rightarrow> int \<times> 'h arm_pmu \<times> event_heap \<times> 'h" where
  "armpmu_add armpmu this_cpu event flags heap h =
     (if \<not> cpumask_test_cpu (int this_cpu) (supported_cpus armpmu)
      then (- ENOENT, armpmu, heap, h)
      else
        let (i, hwe) = get_event_idx armpmu (hw_events armpmu this_cpu) (heap event) in
        if i < 0 then (i, armpmu\<lparr>hw_events := (hw_events armpmu)(this_cpu := hwe)\<rparr>, heap, h)
        else
          let heap = heap(event := (heap event)\<lparr>hw := (hw (heap event))\<lparr>idx := i\<rparr>\<rparr>);
              hwe = hwe\<lparr>events := (events hwe)(nat i \<mapsto> event)\<rparr>;
              heap = heap(event := (heap event)\<lparr>hw := (hw (heap event))\<lparr>hwc_state :=
                       PERF_HES_STOPPED OR PERF_HES_UPTODATE\<rparr>\<rparr>);
              (heap, h) =
                (if flags AND PERF_EF_START \<noteq> 0
                 then let (e, h) = armpmu_start armpmu (heap event) PERF_EF_RELOAD h
                      in (heap(event := e), h)
                 else (heap, h))
          in (0, armpmu\<lparr>hw_events := (hw_events armpmu)(this_cpu := hwe)\<rparr>, heap, h))"

section \<open>Group validation\<close>

text \<open>
  \<^verbatim>\<open>validate_event\<close>. Its first argument in the source is the \<^verbatim>\<open>struct pmu\<close> of the
  event being initialised; here it is the bank that embeds it, so that
  \<^verbatim>\<open>to_arm_pmu(event->pmu)\<close>, taken once \<^verbatim>\<open>event->pmu == pmu\<close> is known, is that bank.
\<close>

definition validate_event ::
  "'h arm_pmu \<Rightarrow> pmu_hw_events \<Rightarrow> perf_event \<Rightarrow> int \<times> pmu_hw_events" where
  "validate_event armpmu hwe event =
     (if is_software event then (1, hwe)
      else if pmu event \<noteq> pmu_id armpmu then (0, hwe)
      else if state event < PERF_EVENT_STATE_OFF then (1, hwe)
      else if state event = PERF_EVENT_STATE_OFF \<and> \<not> enable_on_exec (attr event) then (1, hwe)
      else let (i, hwe) = get_event_idx armpmu hwe event
           in ((if 0 \<le> i then 1 else 0), hwe))"

text \<open>
  The \<^verbatim>\<open>list_for_each_entry\<close> loop of \<^verbatim>\<open>validate_group\<close>; \<open>None\<close> is its early
  \<^verbatim>\<open>return -EINVAL\<close>.
\<close>

fun validate_siblings ::
  "'h arm_pmu \<Rightarrow> event_heap \<Rightarrow> pmu_hw_events \<Rightarrow> nat list \<Rightarrow> pmu_hw_events option" where
  "validate_siblings armpmu heap fake_pmu [] = Some fake_pmu"
| "validate_siblings armpmu heap fake_pmu (sibling # rest) =
     (let (ok, fake_pmu) = validate_event armpmu fake_pmu (heap sibling)
      in if ok = 0 then None else validate_siblings armpmu heap fake_pmu rest)"

text \<open>
  \<^verbatim>\<open>validate_group\<close>. \<open>stack\<close> is the uninitialised \<^verbatim>\<open>fake_pmu\<close> on the stack, of which
  only \<open>used_mask\<close> is cleared.
\<close>

definition validate_group :: "'h arm_pmu \<Rightarrow> pmu_hw_events \<Rightarrow> event_heap \<Rightarrow> nat \<Rightarrow> int" where
  "validate_group armpmu stack heap event =
     (let leader = group_leader (heap event);
          fake_pmu = stack\<lparr>used_mask := {}\<rparr>;
          (ok, fake_pmu) = validate_event armpmu fake_pmu (heap leader)
      in if ok = 0 then - EINVAL
         else
           (case validate_siblings armpmu heap fake_pmu (sibling_list (heap leader)) of
              None \<Rightarrow> - EINVAL
            | Some fake_pmu \<Rightarrow>
                let (ok, fake_pmu) = validate_event armpmu fake_pmu (heap event)
                in if ok = 0 then - EINVAL else 0))"

section \<open>Event initialisation\<close>

definition event_requires_mode_exclusion :: "perf_event_attr \<Rightarrow> bool" where
  "event_requires_mode_exclusion a =
     (exclude_idle a \<or> exclude_user a \<or> exclude_kernel a \<or> exclude_hv a)"

definition is_sampling_event :: "perf_event \<Rightarrow> bool" where
  "is_sampling_event event = (attr_sample_period (attr event) \<noteq> 0)"

definition has_branch_stack :: "perf_event \<Rightarrow> bool" where
  "has_branch_stack event = sample_branch_stack (attr event)"

text \<open>\<^verbatim>\<open>__hw_perf_event_init\<close>.\<close>

definition hw_perf_event_init ::
  "'h arm_pmu \<Rightarrow> pmu_hw_events \<Rightarrow> event_heap \<Rightarrow> nat \<Rightarrow> int \<times> event_heap" where
  "hw_perf_event_init armpmu stack heap event =
     (let ev = heap event;
          mapping = map_event armpmu ev
      in if mapping < 0 then (mapping, heap)
         else
           let hwc = (hw ev)\<lparr>idx := - 1, config_base := 0, config := 0, event_base := 0\<rparr>;
               (unfiltered, hwc) =
                 (case set_event_filter armpmu of
                    None \<Rightarrow> (True, hwc)
                  | Some f \<Rightarrow> let (r, hwc) = f hwc (attr ev) in (r \<noteq> 0, hwc))
           in if unfiltered \<and> event_requires_mode_exclusion (attr ev)
              then (- EOPNOTSUPP, heap(event := ev\<lparr>hw := hwc\<rparr>))
              else
                let hwc = hwc\<lparr>config_base := config_base hwc OR word_of_int mapping\<rparr>;
                    hwc = (if \<not> is_sampling_event ev
                           then hwc\<lparr>sample_period := drop_bit 1 (max_period armpmu),
                                    last_period := drop_bit 1 (max_period armpmu),
                                    period_left := drop_bit 1 (max_period armpmu)\<rparr>
                           else hwc);
                    heap = heap(event := ev\<lparr>hw := hwc\<rparr>)
                in if group_leader ev \<noteq> event
                   then (if validate_group armpmu stack heap event \<noteq> 0
                         then (- EINVAL, heap) else (0, heap))
                   else (0, heap))"

definition armpmu_event_init ::
  "'h arm_pmu \<Rightarrow> pmu_hw_events \<Rightarrow> event_heap \<Rightarrow> nat \<Rightarrow> int \<times> event_heap" where
  "armpmu_event_init armpmu stack heap event =
     (if cpu (heap event) \<noteq> - 1 \<and>
         \<not> cpumask_test_cpu (cpu (heap event)) (supported_cpus armpmu)
      then (- ENOENT, heap)
      else if has_branch_stack (heap event) then (- EOPNOTSUPP, heap)
      else if map_event armpmu (heap event) = - ENOENT then (- ENOENT, heap)
      else hw_perf_event_init armpmu stack heap event)"

section \<open>The legacy queries and registration\<close>

text \<open>
  \<open>oprofile\<close> is the global \<^verbatim>\<open>__oprofile_cpu_pmu\<close>, a pointer to a bank or \<^verbatim>\<open>NULL\<close>;
  \<open>mem\<close> is the memory the pointer is read through.
\<close>

definition perf_pmu_name :: "(nat \<Rightarrow> 'h arm_pmu) \<Rightarrow> nat option \<Rightarrow> string option" where
  "perf_pmu_name mem oprofile =
     (case oprofile of None \<Rightarrow> None | Some p \<Rightarrow> Some (name (mem p)))"

definition perf_num_counters :: "(nat \<Rightarrow> 'h arm_pmu) \<Rightarrow> nat option \<Rightarrow> int" where
  "perf_num_counters mem oprofile =
     (let max_events = 0;
          max_events = (case oprofile of None \<Rightarrow> max_events | Some p \<Rightarrow> int (num_events (mem p)))
      in max_events)"

text \<open>
  What the kernel services called during one registration return: the hotplug instance
  registration, the power-management notifier registration and \<^verbatim>\<open>perf_pmu_register\<close>.
\<close>

record register_env =
  cpuhp_state_add_instance :: int
  cpu_pm_register_notifier :: int
  perf_pmu_register :: int

definition cpu_pmu_init :: "register_env \<Rightarrow> int" where
  "cpu_pmu_init env =
     (let err = cpuhp_state_add_instance env
      in if err \<noteq> 0 then err
         else let err = cpu_pm_register_notifier env
              in if err \<noteq> 0 then err else 0)"

definition armpmu_register :: "register_env \<Rightarrow> nat \<Rightarrow> nat option \<Rightarrow> int \<times> nat option" where
  "armpmu_register env pmu' oprofile =
     (let ret = cpu_pmu_init env
      in if ret \<noteq> 0 then (ret, oprofile)
         else let ret = perf_pmu_register env
              in if ret \<noteq> 0 then (ret, oprofile)
                 else (0, (if oprofile = None then Some pmu' else oprofile)))"

section \<open>Interrupt lines\<close>




section \<open>Power-state transitions\<close>






section \<open>Reference points for the properties\<close>

text \<open>Byte \<open>k\<close> of a configuration value, counted from the least significant one.\<close>

definition config_byte :: "nat \<Rightarrow> u64 \<Rightarrow> nat" where
  "config_byte k c = (unat c div 256 ^ k) mod 256"

text \<open>A cache table with one supported entry, and the bounds of the mainline header.\<close>

definition abi_example :: perf_abi where
  "abi_example = \<lparr>PERF_COUNT_HW_CACHE_MAX = 7, PERF_COUNT_HW_CACHE_OP_MAX = 3,
     PERF_COUNT_HW_CACHE_RESULT_MAX = 2, CACHE_OP_UNSUPPORTED = 0xFFFF\<rparr>"

definition cache_map_example :: "nat \<Rightarrow> nat \<Rightarrow> nat \<Rightarrow> u32" where
  "cache_map_example t p r = (if t = 3 \<and> p = 2 \<and> r = 1 then 0x17 else 0xFFFF)"

text \<open>
  An example bank with three slots and 32-bit counters, whose hardware state is one raw
  counter register; a first-fit slot strategy, which returns \<open>-11\<close> (\<^verbatim>\<open>-EAGAIN\<close>) when
  no slot is free; an example event, the same event with its period of 1000 armed, and
  an interrupt context that re-arms the event and moves the counter.
\<close>

definition hwc_example :: hw_perf_event where
  "hwc_example = \<lparr>idx = 0, hwc_state = 0, config_base = 0x11, config = 0, event_base = 0,
     sample_period = 1000, last_period = 1000, period_left = 1000, prev_count = 0\<rparr>"

definition attr_example :: perf_event_attr where
  "attr_example = \<lparr>attr_type = 0, attr_config = 0, attr_sample_period = 1000,
     sample_branch_stack = False, enable_on_exec = False, exclude_idle = False,
     exclude_user = False, exclude_kernel = False, exclude_hv = False\<rparr>"

definition event_example :: perf_event where
  "event_example = \<lparr>attr = attr_example, pmu = 1, cpu = - 1, state = PERF_EVENT_STATE_ACTIVE,
     count = 0, hw = hwc_example, group_leader = 0, sibling_list = [], is_software = False\<rparr>"

definition first_fit :: "nat \<Rightarrow> pmu_hw_events \<Rightarrow> perf_event \<Rightarrow> int \<times> pmu_hw_events" where
  "first_fit n hwe event =
     (case find (\<lambda>i. i \<notin> used_mask hwe) [0..<n] of
        Some i \<Rightarrow> (int i, hwe\<lparr>used_mask := insert i (used_mask hwe)\<rparr>)
      | None \<Rightarrow> (- 11, hwe))"

definition hw_events_example :: pmu_hw_events where
  "hw_events_example = \<lparr>events = Map.empty, used_mask = {}, irq = 0\<rparr>"

definition pmu_example :: "u64 arm_pmu" where
  "pmu_example = \<lparr>pmu_id = 1, name = ''armv8_pmuv3'', active_irqs = {},
     supported_cpus = {0, 1, 2, 3}, num_events = 3, max_period = 0xFFFFFFFF,
     pmu_state = ARM_PMU_STATE_OFF, percpu_irq = - 1, platdata = None,
     hw_events = (\<lambda>c. hw_events_example),
     enable = (\<lambda>e h. h), disable = (\<lambda>e h. h), get_event_idx = first_fit 3,
     set_event_filter = None, read_counter = (\<lambda>e h. h), write_counter = (\<lambda>e v h. v),
     start = (\<lambda>h. h), stop = (\<lambda>h. h), reset = None, map_event = (\<lambda>e. 0x11)\<rparr>"

definition armed_example :: perf_event where
  "armed_example = event_example\<lparr>hw := hwc_example\<lparr>prev_count := 0xFFFFFFFFFFFFFC18\<rparr>\<rparr>"

definition irq_example :: "perf_event \<times> u64 \<Rightarrow> perf_event \<times> u64" where
  "irq_example s = ((fst s)\<lparr>hw := (hw (fst s))\<lparr>prev_count := 0xFFFFFFFFFFFFFC18\<rparr>\<rparr>, 0x20)"

text \<open>
  The reconciliation of \<open>period_left\<close> as the specification words it: a value at or below
  \<open>-period\<close> is reset to \<open>period\<close>; then a value at or below zero gains one full
  period; either case is an overflow. The value programmed is clamped to half of
  \<open>max_period\<close>.
\<close>

definition reconcile_left :: "u64 \<Rightarrow> u64 \<Rightarrow> u64" where
  "reconcile_left left period =
     (let left = (if sint left \<le> sint (- period) then period else left)
      in if sint left \<le> 0 then left + period else left)"

definition period_overflowed :: "u64 \<Rightarrow> u64 \<Rightarrow> bool" where
  "period_overflowed left period =
     (sint left \<le> sint (- period) \<or>
      sint (if sint left \<le> sint (- period) then period else left) \<le> 0)"

definition clamp_left :: "u64 \<Rightarrow> u64 \<Rightarrow> u64" where
  "clamp_left maxp left = (if drop_bit 1 maxp < left then drop_bit 1 maxp else left)"

text \<open>The armed example event after one stop at a raw counter of \<open>0x10\<close>.\<close>

definition stopped_example :: perf_event where
  "stopped_example =
     event_example\<lparr>hw := hwc_example\<lparr>hwc_state := 3, prev_count := 0x10\<rparr>, count := 1016\<rparr>"

text \<open>An event that asks for branch-stack sampling and is bound to core 5.\<close>

definition branch_event_example :: perf_event where
  "branch_event_example =
     event_example\<lparr>attr := attr_example\<lparr>sample_branch_stack := True\<rparr>, cpu := 5\<rparr>"

text \<open>
  A run of calls of \<^verbatim>\<open>armpmu_register\<close>, each with what the kernel services return
  during it, threading the global pointer; \<open>registers\<close> says that a call of the run meets
  no failure.
\<close>

fun register_all :: "(register_env \<times> nat) list \<Rightarrow> nat option \<Rightarrow> nat option" where
  "register_all [] oprofile = oprofile"
| "register_all (r # rest) oprofile =
     register_all rest (snd (armpmu_register (fst r) (snd r) oprofile))"

definition registers :: "register_env \<times> nat \<Rightarrow> bool" where
  "registers r = (cpuhp_state_add_instance (fst r) = 0 \<and> cpu_pm_register_notifier (fst r) = 0 \<and>
     perf_pmu_register (fst r) = 0)"

definition env_ok :: register_env where
  "env_ok = \<lparr>cpuhp_state_add_instance = 0, cpu_pm_register_notifier = 0, perf_pmu_register = 0\<rparr>"

definition env_fail :: register_env where
  "env_fail = \<lparr>cpuhp_state_add_instance = 0, cpu_pm_register_notifier = 0,
     perf_pmu_register = - 12\<rparr>"

definition banks_example :: "nat \<Rightarrow> u64 arm_pmu" where
  "banks_example p =
     (if p = 8 then pmu_example else pmu_example\<lparr>name := ''other'', num_events := 6\<rparr>)"

text \<open>The example bank with all three slots of every core taken.\<close>

definition pmu_full_example :: "u64 arm_pmu" where
  "pmu_full_example =
     pmu_example\<lparr>hw_events := (\<lambda>c. hw_events_example\<lparr>used_mask := {0, 1, 2}\<rparr>)\<rparr>"
















section \<open>Properties of the event mapper\<close>

lemma ff_mask: "(0xff :: 'a::len word) = mask 8"
  by (simp add: mask_eq_exp_minus_1)

lemma unat_and_ff: "unat (drop_bit n (c :: u64) AND 0xff) = (unat c div 2 ^ n) mod 256"
proof -
  have "unat (drop_bit n c AND 0xff) = take_bit 8 (drop_bit n (unat c))"
  proof -
    have "take_bit 64 (unat c) = unat c"
      using unsigned_less [of c, where 'a = nat] by (simp add: take_bit_nat_eq_self)
    then show ?thesis
      by (simp add: ff_mask unsigned_take_bit_eq unsigned_drop_bit_eq flip: take_bit_eq_mask)
  qed
  also have "\<dots> = (unat c div 2 ^ n) mod 256"
    by (simp add: take_bit_eq_mod drop_bit_eq_div)
  finally show ?thesis .
qed

lemma unat_ucast_and_ff:
  "unat (ucast (drop_bit n (c :: u64) AND 0xff) :: u32) = (unat c div 2 ^ n) mod 256"
proof -
  have "unat (ucast (drop_bit n c AND 0xff) :: u32) = take_bit 32 (unat (drop_bit n c AND 0xff))"
    by (simp add: unsigned_ucast_eq)
  also have "\<dots> = take_bit 32 ((unat c div 2 ^ n) mod 256)"
    by (simp only: unat_and_ff)
  also have "\<dots> = (unat c div 2 ^ n) mod 256"
  proof (rule take_bit_nat_eq_self)
    have "(unat c div 2 ^ n) mod 256 < 256" by simp
    then show "(unat c div 2 ^ n) mod 256 < 2 ^ 32" by simp
  qed
  finally show ?thesis .
qed

lemma cache_type_byte: "unat (ucast (drop_bit 0 (c :: u64) AND 0xff) :: u32) = config_byte 0 c"
  using unat_ucast_and_ff [of 0 c] by (simp add: config_byte_def)

lemma cache_op_byte: "unat (ucast (drop_bit 8 (c :: u64) AND 0xff) :: u32) = config_byte 1 c"
  using unat_ucast_and_ff [of 8 c] by (simp add: config_byte_def)

lemma cache_result_byte: "unat (ucast (drop_bit 16 (c :: u64) AND 0xff) :: u32) = config_byte 2 c"
  using unat_ucast_and_ff [of 16 c] by (simp add: config_byte_def)

lemma map_cache_event_bytes:
  "armpmu_map_cache_event abi cache_map c =
     (if PERF_COUNT_HW_CACHE_MAX abi \<le> config_byte 0 c then - EINVAL
      else if PERF_COUNT_HW_CACHE_OP_MAX abi \<le> config_byte 1 c then - EINVAL
      else if PERF_COUNT_HW_CACHE_RESULT_MAX abi \<le> config_byte 2 c then - EINVAL
      else case cache_map of None \<Rightarrow> - ENOENT
           | Some tbl \<Rightarrow>
               if tbl (config_byte 0 c) (config_byte 1 c) (config_byte 2 c) = CACHE_OP_UNSUPPORTED abi
               then - ENOENT
               else sint (tbl (config_byte 0 c) (config_byte 1 c) (config_byte 2 c)))"
  unfolding armpmu_map_cache_event_def Let_def cache_type_byte cache_op_byte cache_result_byte
  by (simp split: option.split)

lemma config_byte_example:
  "config_byte 0 0x010203 = 3 \<and> config_byte 1 0x010203 = 2 \<and> config_byte 2 0x010203 = 1"
  by (simp add: config_byte_def)

lemma map_raw_event_bits:
  "(word_of_int (armpmu_map_raw_event raw_event_mask c) :: u32) = ucast c AND raw_event_mask"
  unfolding armpmu_map_raw_event_def
  by (rule bit_word_eqI) (auto simp: bit_simps)

lemma map_raw_example: "armpmu_map_raw_event 0xFF 0xABCD = 0xCD"
  by (simp add: armpmu_map_raw_event_def)

lemma uint_u32_bound: "uint (w :: u32) < 4294967296"
  using unsigned_less [of w, where 'a = int] by simp

lemma raw_masked_uint:
  "uint (ucast ((c :: u64) AND ucast (m :: u32)) :: u32) = uint (c AND ucast m)"
proof -
  have m64: "uint (ucast m :: u64) = uint m"
  proof -
    have "uint (ucast m :: u64) = take_bit 64 (uint m)" by (simp add: unsigned_ucast_eq)
    also have "\<dots> = uint m"
    proof (rule take_bit_int_eq_self)
      show "0 \<le> uint m" by simp
      have "uint m < 4294967296" by (rule uint_u32_bound)
      then show "uint m < 2 ^ 64" by simp
    qed
    finally show ?thesis .
  qed
  have "c AND ucast m \<le> ucast m" by (rule word_and_le1)
  then have "uint (c AND ucast m) \<le> uint (ucast m :: u64)" by (simp add: word_le_def)
  with m64 uint_u32_bound [of m] have small: "uint (c AND ucast m) < 4294967296" by simp
  have "uint (ucast (c AND ucast m) :: u32) = take_bit 32 (uint (c AND ucast m))"
    by (simp add: unsigned_ucast_eq)
  also have "\<dots> = uint (c AND ucast m)"
  proof (rule take_bit_int_eq_self)
    show "0 \<le> uint (c AND ucast m)" by simp
    show "uint (c AND ucast m) < 2 ^ 32" using small by simp
  qed
  finally show ?thesis .
qed

lemma sint_u32_shift: "sint (w :: u32) = (uint w + 2147483648) mod 4294967296 - 2147483648"
  by (simp add: sint_uint signed_take_bit_eq_take_bit_shift take_bit_eq_mod)

lemma sint_u32_cases:
  "sint (w :: u32) = (if uint w < 2147483648 then uint w else uint w - 4294967296)"
proof (cases "uint w < 2147483648")
  case True
  have "0 \<le> uint w + 2147483648" by simp
  moreover have "uint w + 2147483648 < 4294967296" using True by simp
  ultimately have "(uint w + 2147483648) mod 4294967296 = uint w + 2147483648"
    by (rule mod_pos_pos_trivial)
  with True show ?thesis by (simp add: sint_u32_shift)
next
  case False
  have "uint w + 2147483648 = (uint w - 2147483648) + 4294967296" by simp
  then have "(uint w + 2147483648) mod 4294967296 = (uint w - 2147483648) mod 4294967296"
    by (simp only: mod_add_self2)
  also have "\<dots> = uint w - 2147483648"
  proof (rule mod_pos_pos_trivial)
    show "0 \<le> uint w - 2147483648" using False by simp
    show "uint w - 2147483648 < 4294967296" using uint_u32_bound [of w] by simp
  qed
  finally show ?thesis using False by (simp add: sint_u32_shift)
qed

lemma map_raw_event_value:
  "armpmu_map_raw_event m c =
     (if uint (c AND ucast m) < 2147483648 then uint (c AND ucast m)
      else uint (c AND ucast m) - 4294967296)"
  unfolding armpmu_map_raw_event_def sint_u32_cases raw_masked_uint by (rule refl)

text \<open>
  C8 (as amended). Resolving a generic cache kind decodes the type from byte 0, the
  operation from byte 1 and the result from byte 2 of the configuration value
  (\<open>0x010203\<close> gives type 3, operation 2, result 1). A sub-field at or beyond its
  enumeration bound gives \<open>-EINVAL\<close>; with all three in bounds a missing table or a
  sentinel entry gives \<open>-ENOENT\<close>, and any other entry is returned. Resolving a raw kind
  checks nothing and returns the low 32 bits of \<open>config & raw_mask\<close> as a signed
  \<^verbatim>\<open>int\<close>: \<open>config & raw_mask\<close> itself when that is below \<open>2^31\<close> (\<open>0xABCD\<close> under
  mask \<open>0xFF\<close> gives \<open>0xCD\<close>), and \<open>config & raw_mask - 2^32\<close>, a negative number,
  when bit 31 is set.
\<close>

theorem armpmu_map_cache_raw_event_resolve:
  "(PERF_COUNT_HW_CACHE_MAX abi \<le> config_byte 0 c \<or>
    PERF_COUNT_HW_CACHE_OP_MAX abi \<le> config_byte 1 c \<or>
    PERF_COUNT_HW_CACHE_RESULT_MAX abi \<le> config_byte 2 c
      \<longrightarrow> armpmu_map_cache_event abi cache_map c = - EINVAL) \<and>
   (config_byte 0 c < PERF_COUNT_HW_CACHE_MAX abi \<and>
    config_byte 1 c < PERF_COUNT_HW_CACHE_OP_MAX abi \<and>
    config_byte 2 c < PERF_COUNT_HW_CACHE_RESULT_MAX abi
      \<longrightarrow> armpmu_map_cache_event abi None c = - ENOENT \<and>
          armpmu_map_cache_event abi (Some tbl) c =
            (if tbl (config_byte 0 c) (config_byte 1 c) (config_byte 2 c) = CACHE_OP_UNSUPPORTED abi
             then - ENOENT
             else sint (tbl (config_byte 0 c) (config_byte 1 c) (config_byte 2 c)))) \<and>
   config_byte 0 0x010203 = 3 \<and> config_byte 1 0x010203 = 2 \<and> config_byte 2 0x010203 = 1 \<and>
   armpmu_map_raw_event raw_event_mask c =
     (if uint (c AND ucast raw_event_mask) < 2147483648 then uint (c AND ucast raw_event_mask)
      else uint (c AND ucast raw_event_mask) - 4294967296) \<and>
   (word_of_int (armpmu_map_raw_event raw_event_mask c) :: u32) = ucast c AND raw_event_mask \<and>
   armpmu_map_raw_event 0xFF 0xABCD = 0xCD"
proof -
  have cache: "(PERF_COUNT_HW_CACHE_MAX abi \<le> config_byte 0 c \<or>
      PERF_COUNT_HW_CACHE_OP_MAX abi \<le> config_byte 1 c \<or>
      PERF_COUNT_HW_CACHE_RESULT_MAX abi \<le> config_byte 2 c
        \<longrightarrow> armpmu_map_cache_event abi cache_map c = - EINVAL) \<and>
     (config_byte 0 c < PERF_COUNT_HW_CACHE_MAX abi \<and>
      config_byte 1 c < PERF_COUNT_HW_CACHE_OP_MAX abi \<and>
      config_byte 2 c < PERF_COUNT_HW_CACHE_RESULT_MAX abi
        \<longrightarrow> armpmu_map_cache_event abi None c = - ENOENT \<and>
            armpmu_map_cache_event abi (Some tbl) c =
              (if tbl (config_byte 0 c) (config_byte 1 c) (config_byte 2 c) =
                  CACHE_OP_UNSUPPORTED abi
               then - ENOENT
               else sint (tbl (config_byte 0 c) (config_byte 1 c) (config_byte 2 c))))"
    by (simp add: map_cache_event_bytes)
  show ?thesis
    using cache config_byte_example map_raw_event_value [of raw_event_mask c]
      map_raw_event_bits [of raw_event_mask c] map_raw_example
    by blast
qed

theorem armpmu_map_cache_raw_event_resolve_witness:
  "armpmu_map_cache_event abi_example (Some cache_map_example) 0x010203 = 0x17 \<and>
   armpmu_map_cache_event abi_example (Some cache_map_example) 0x000203 = - ENOENT \<and>
   armpmu_map_cache_event abi_example None 0x010203 = - ENOENT \<and>
   armpmu_map_cache_event abi_example None 0x020203 = - EINVAL \<and>
   armpmu_map_raw_event 0xFF 0xABCD = 0xCD \<and>
   armpmu_map_raw_event 0xFFFFFFFF 0x7FFFFFFF = 2147483647 \<and>
   armpmu_map_raw_event 0xFFFFFFFF 0x80000000 = - 2147483648"
  using armpmu_map_cache_raw_event_resolve [of abi_example "0x010203" None cache_map_example "0xFF"]
    armpmu_map_cache_raw_event_resolve [of abi_example "0x000203" None cache_map_example "0xFF"]
    armpmu_map_cache_raw_event_resolve [of abi_example "0x020203" None cache_map_example "0xFF"]
    armpmu_map_cache_raw_event_resolve [of abi_example "0x7FFFFFFF" None cache_map_example
      "0xFFFFFFFF"]
    armpmu_map_cache_raw_event_resolve [of abi_example "0x80000000" None cache_map_example
      "0xFFFFFFFF"]
  by (simp add: abi_example_def cache_map_example_def config_byte_def)

text \<open>
  The claim as first stated fails: under the mask \<open>0xFFFFFFFF\<close> the configuration
  \<open>0x80000000\<close> resolves to \<open>-2147483648\<close>, not to \<open>config & raw_mask\<close>, and
  \<open>0xFFFFFFFE\<close> resolves to \<open>-ENOENT\<close>.
\<close>

theorem armpmu_map_raw_event_negative_counterexample:
  "uint ((0x80000000 :: u64) AND ucast (0xFFFFFFFF :: u32)) = 2147483648 \<and>
   armpmu_map_raw_event 0xFFFFFFFF 0x80000000 = - 2147483648 \<and>
   armpmu_map_raw_event 0xFFFFFFFF 0x80000000 \<noteq>
     uint ((0x80000000 :: u64) AND ucast (0xFFFFFFFF :: u32)) \<and>
   armpmu_map_raw_event 0xFFFFFFFF 0xFFFFFFFE = - ENOENT"
  by (simp add: armpmu_map_raw_event_def ENOENT_def)

section \<open>Properties of the period accounting\<close>

lemma event_update_alone:
  "armpmu_event_update armpmu [] event h =
     (read_counter armpmu event h,
      event\<lparr>count := count event +
                ((read_counter armpmu event h - prev_count (hw event)) AND max_period armpmu),
            hw := (hw event)\<lparr>
              period_left := period_left (hw event) -
                ((read_counter armpmu event h - prev_count (hw event)) AND max_period armpmu),
              prev_count := read_counter armpmu event h\<rparr>\<rparr>,
      h)"
  by (simp add: event_update_commit_def Let_def)

lemma prev_count_commit:
  "prev_count (hw (event_update_commit armpmu p n event)) = n"
  by (simp add: event_update_commit_def Let_def)

lemma event_update_stores_raw:
  "prev_count (hw (fst (snd (armpmu_event_update armpmu sched event h)))) =
     fst (armpmu_event_update armpmu sched event h)"
proof (induction sched arbitrary: event h)
  case Nil
  show ?case by (simp add: Let_def prev_count_commit)
next
  case (Cons irq_ctx sched)
  show ?case
  proof (cases "prev_count (hw (fst (irq_ctx (event, h)))) = prev_count (hw event)")
    case True
    then show ?thesis by (simp add: Let_def prev_count_commit)
  next
    case False
    then show ?thesis using Cons.IH by (simp add: Let_def)
  qed
qed

lemma delta_bounded: "(a :: u64) AND m \<le> m"
  by (rule word_and_le1)

text \<open>
  C1. \<^verbatim>\<open>armpmu_event_update\<close> reads the raw counter, computes
  \<open>delta = (new_raw - prev_count) & max_period\<close> (an unsigned value, at most
  \<open>max_period\<close>), replaces \<open>prev_count\<close> by the raw value, adds \<open>delta\<close> to the
  running total, subtracts it from \<open>period_left\<close> and returns the raw value. When
  another context changed \<open>prev_count\<close> between the read and the compare-and-swap,
  nothing is written and the loop starts again from the changed state; when it did not,
  the swap goes through. The function is total: it has no error result, and returns for
  every finite schedule of interference, with \<open>prev_count\<close> equal to the value returned.
\<close>

theorem armpmu_event_update_accounts:
  "(let raw = read_counter armpmu event h;
        delta = (raw - prev_count (hw event)) AND max_period armpmu
    in armpmu_event_update armpmu [] event h =
         (raw,
          event\<lparr>count := count event + delta,
                hw := (hw event)\<lparr>period_left := period_left (hw event) - delta,
                                 prev_count := raw\<rparr>\<rparr>,
          h) \<and>
       delta \<le> max_period armpmu \<and> 0 \<le> uint delta) \<and>
   (prev_count (hw (fst (irq_ctx (event, h)))) \<noteq> prev_count (hw event) \<longrightarrow>
      armpmu_event_update armpmu (irq_ctx # sched) event h =
        armpmu_event_update armpmu sched (fst (irq_ctx (event, h))) (snd (irq_ctx (event, h)))) \<and>
   (prev_count (hw (fst (irq_ctx (event, h)))) = prev_count (hw event) \<longrightarrow>
      armpmu_event_update armpmu (irq_ctx # sched) event h =
        (read_counter armpmu event h,
         event_update_commit armpmu (prev_count (hw event)) (read_counter armpmu event h)
           (fst (irq_ctx (event, h))),
         snd (irq_ctx (event, h)))) \<and>
   prev_count (hw (fst (snd (armpmu_event_update armpmu sched event h)))) =
     fst (armpmu_event_update armpmu sched event h)"
  using event_update_stores_raw [of armpmu sched event h]
  by (simp add: Let_def event_update_commit_def delta_bounded)

theorem armpmu_event_update_accounts_witness:
  "fst (armpmu_event_update pmu_example [] armed_example 0x10) = 0x10 \<and>
   count (fst (snd (armpmu_event_update pmu_example [] armed_example 0x10))) = 1016 \<and>
   period_left (hw (fst (snd (armpmu_event_update pmu_example [] armed_example 0x10)))) = - 16 \<and>
   fst (armpmu_event_update pmu_example [irq_example] event_example 0x10) = 0x20 \<and>
   count (fst (snd (armpmu_event_update pmu_example [irq_example] event_example 0x10))) = 1032 \<and>
   fst (armpmu_event_update pmu_example [irq_example] armed_example 0x10) = 0x10 \<and>
   count (fst (snd (armpmu_event_update pmu_example [irq_example] armed_example 0x10))) = 1016"
  using armpmu_event_update_accounts [of pmu_example armed_example "0x10" irq_example "[]"]
    armpmu_event_update_accounts [of pmu_example event_example "0x10" irq_example "[]"]
  by (simp add: pmu_example_def armed_example_def event_example_def hwc_example_def
      irq_example_def event_update_commit_def Let_def)

lemma set_period_eq:
  "armpmu_event_set_period armpmu event h =
     ((if period_overflowed (period_left (hw event)) (sample_period (hw event)) then 1 else 0),
      event\<lparr>hw := (hw event)\<lparr>
        period_left := reconcile_left (period_left (hw event)) (sample_period (hw event)),
        last_period :=
          (if period_overflowed (period_left (hw event)) (sample_period (hw event))
           then sample_period (hw event) else last_period (hw event)),
        prev_count := - clamp_left (max_period armpmu)
          (reconcile_left (period_left (hw event)) (sample_period (hw event)))\<rparr>\<rparr>,
      write_counter armpmu
        (event\<lparr>hw := (hw event)\<lparr>
          period_left := reconcile_left (period_left (hw event)) (sample_period (hw event)),
          last_period :=
            (if period_overflowed (period_left (hw event)) (sample_period (hw event))
             then sample_period (hw event) else last_period (hw event)),
          prev_count := - clamp_left (max_period armpmu)
            (reconcile_left (period_left (hw event)) (sample_period (hw event)))\<rparr>\<rparr>)
        ((- clamp_left (max_period armpmu)
            (reconcile_left (period_left (hw event)) (sample_period (hw event)))) AND 0xffffffff)
        h)"
  by (simp add: armpmu_event_set_period_def reconcile_left_def period_overflowed_def
      clamp_left_def Let_def)

lemma clamp_left_le: "clamp_left maxp left \<le> drop_bit 1 maxp"
  by (simp add: clamp_left_def not_less)

text \<open>
  C2 (as amended). \<^verbatim>\<open>armpmu_event_set_period\<close> reconciles \<open>period_left\<close> (reset to
  \<open>period\<close> at or below \<open>-period\<close>, then one period added at or below zero, either
  flagging an overflow), clamps the value to be programmed to at most
  \<open>max_period >> 1\<close>, programs the raw counter to \<open>(-clamped_left) & 0xffffffff\<close> and
  records \<open>prev_count\<close> as the full 64-bit \<open>-clamped_left\<close>, whose low 32 bits are the
  programmed value; it returns whether an overflow occurred and leaves the running total
  alone.
\<close>

theorem armpmu_event_set_period_programs:
  "fst (armpmu_event_set_period armpmu event h) =
     (if period_overflowed (period_left (hw event)) (sample_period (hw event)) then 1 else 0) \<and>
   period_left (hw (fst (snd (armpmu_event_set_period armpmu event h)))) =
     reconcile_left (period_left (hw event)) (sample_period (hw event)) \<and>
   clamp_left (max_period armpmu)
       (reconcile_left (period_left (hw event)) (sample_period (hw event)))
     \<le> drop_bit 1 (max_period armpmu) \<and>
   prev_count (hw (fst (snd (armpmu_event_set_period armpmu event h)))) =
     - clamp_left (max_period armpmu)
         (reconcile_left (period_left (hw event)) (sample_period (hw event))) \<and>
   snd (snd (armpmu_event_set_period armpmu event h)) =
     write_counter armpmu (fst (snd (armpmu_event_set_period armpmu event h)))
       ((- clamp_left (max_period armpmu)
            (reconcile_left (period_left (hw event)) (sample_period (hw event))))
        AND 0xffffffff) h \<and>
   (- clamp_left (max_period armpmu)
        (reconcile_left (period_left (hw event)) (sample_period (hw event)))) AND 0xffffffff =
     prev_count (hw (fst (snd (armpmu_event_set_period armpmu event h)))) AND 0xffffffff \<and>
   count (fst (snd (armpmu_event_set_period armpmu event h))) = count event"
  using clamp_left_le [of "max_period armpmu"
      "reconcile_left (period_left (hw event)) (sample_period (hw event))"]
  by (simp add: set_period_eq)

text \<open>
  The claim as first stated fails: with \<open>max_period = 0xFFFFFFFF\<close> and a period of 1000
  the counter is programmed to \<open>0xFFFFFC18\<close> while \<open>prev_count\<close> is
  \<open>0xFFFFFFFFFFFFFC18\<close>; and with \<open>max_period = 0xFFFF\<close> the programmed value is not
  \<open>(-clamped_left) & max_period\<close>.
\<close>

theorem armpmu_event_set_period_prev_count_counterexample:
  "snd (snd (armpmu_event_set_period pmu_example event_example 0)) = 0xFFFFFC18 \<and>
   prev_count (hw (fst (snd (armpmu_event_set_period pmu_example event_example 0)))) =
     0xFFFFFFFFFFFFFC18 \<and>
   prev_count (hw (fst (snd (armpmu_event_set_period pmu_example event_example 0)))) \<noteq>
     snd (snd (armpmu_event_set_period pmu_example event_example 0)) \<and>
   snd (snd (armpmu_event_set_period (pmu_example\<lparr>max_period := 0xFFFF\<rparr>) event_example 0)) \<noteq>
     (- 1000) AND max_period (pmu_example\<lparr>max_period := 0xFFFF\<rparr>)"
  by (simp add: armpmu_event_set_period_def pmu_example_def event_example_def hwc_example_def
      Let_def)

text \<open>An overflowed countdown of \<open>-16\<close> is reconciled to 984 and programmed as \<open>-984\<close>.\<close>

lemma armpmu_event_set_period_example:
  "armpmu_event_set_period pmu_example
       (event_example\<lparr>hw := hwc_example\<lparr>period_left := - 16\<rparr>\<rparr>) 0 =
     (1, event_example\<lparr>hw := hwc_example\<lparr>period_left := 984, prev_count := - 984\<rparr>\<rparr>,
      (- 984) AND 0xffffffff)"
  by (simp add: armpmu_event_set_period_def pmu_example_def event_example_def hwc_example_def
      Let_def)

section \<open>Properties of stop\<close>

lemma stopped_bit_set: "(s OR (PERF_HES_STOPPED OR PERF_HES_UPTODATE)) AND PERF_HES_STOPPED \<noteq> 0"
proof -
  have "(s OR (1 OR 2)) AND 1 = (1 :: u32)"
    by (rule bit_word_eqI) (auto simp: bit_simps)
  then show ?thesis by (simp add: PERF_HES_STOPPED_def PERF_HES_UPTODATE_def)
qed

lemma armpmu_stop_stopped:
  "hwc_state (hw event) AND PERF_HES_STOPPED \<noteq> 0 \<Longrightarrow> armpmu_stop armpmu event flags h = (event, h)"
  by (simp add: armpmu_stop_def)

lemma armpmu_stop_running:
  "hwc_state (hw event) AND PERF_HES_STOPPED = 0 \<Longrightarrow>
   armpmu_stop armpmu event flags h =
     (event\<lparr>count := count event +
               ((read_counter armpmu event (disable armpmu event h) - prev_count (hw event))
                AND max_period armpmu),
            hw := (hw event)\<lparr>
              hwc_state := hwc_state (hw event) OR (PERF_HES_STOPPED OR PERF_HES_UPTODATE),
              period_left := period_left (hw event) -
                ((read_counter armpmu event (disable armpmu event h) - prev_count (hw event))
                 AND max_period armpmu),
              prev_count := read_counter armpmu event (disable armpmu event h)\<rparr>\<rparr>,
      disable armpmu event h)"
  by (simp add: armpmu_stop_def event_update_commit_def Let_def)

lemma armpmu_stop_sets_stopped:
  "hwc_state (hw (fst (armpmu_stop armpmu event flags h))) AND PERF_HES_STOPPED \<noteq> 0"
proof (cases "hwc_state (hw event) AND PERF_HES_STOPPED = 0")
  case True
  then show ?thesis
    using stopped_bit_set [of "hwc_state (hw event)"] by (simp add: armpmu_stop_running)
next
  case False
  then show ?thesis by (simp add: armpmu_stop_def)
qed

text \<open>
  C7. Stop is idempotent: stopping a stopped event changes nothing, so two stops in a row
  leave the event (its running total and its flags) and the hardware as one stop does.
\<close>

theorem armpmu_stop_idempotent:
  "armpmu_stop armpmu (fst (armpmu_stop armpmu event flags h)) flags'
       (snd (armpmu_stop armpmu event flags h)) =
     armpmu_stop armpmu event flags h \<and>
   (hwc_state (hw event) AND PERF_HES_STOPPED \<noteq> 0 \<longrightarrow>
      armpmu_stop armpmu event flags h = (event, h))"
proof
  show "armpmu_stop armpmu (fst (armpmu_stop armpmu event flags h)) flags'
          (snd (armpmu_stop armpmu event flags h)) = armpmu_stop armpmu event flags h"
    using armpmu_stop_stopped [OF armpmu_stop_sets_stopped [of armpmu event flags h],
        of armpmu flags' "snd (armpmu_stop armpmu event flags h)"]
    by simp
  show "hwc_state (hw event) AND PERF_HES_STOPPED \<noteq> 0 \<longrightarrow>
          armpmu_stop armpmu event flags h = (event, h)"
    by (simp add: armpmu_stop_stopped)
qed

theorem armpmu_stop_idempotent_witness:
  "armpmu_stop pmu_example (fst (armpmu_stop pmu_example armed_example 0 0x10)) 0
       (snd (armpmu_stop pmu_example armed_example 0 0x10)) =
     armpmu_stop pmu_example armed_example 0 0x10 \<and>
   count (fst (armpmu_stop pmu_example armed_example 0 0x10)) = 1016 \<and>
   hwc_state (hw (fst (armpmu_stop pmu_example armed_example 0 0x10))) = 3 \<and>
   armpmu_stop pmu_example stopped_example 0 0x30 = (stopped_example, 0x30)"
  using armpmu_stop_idempotent [of pmu_example armed_example 0 "0x10" 0]
    armpmu_stop_idempotent [of pmu_example stopped_example 0 "0x30" 0]
  by (simp add: armpmu_stop_def pmu_example_def armed_example_def stopped_example_def
      event_example_def hwc_example_def event_update_commit_def Let_def
      PERF_HES_STOPPED_def PERF_HES_UPTODATE_def)

section \<open>Properties of event initialisation\<close>

text \<open>
  C9 (as amended). A request for branch-stack sampling that is not bound to a core
  outside the supported mask is rejected with \<open>-EOPNOTSUPP\<close>, whatever the bank's
  \<^verbatim>\<open>map_event\<close> and whatever the group, and nothing is written. A request bound to a
  core outside the mask is rejected with \<open>-ENOENT\<close> first.
\<close>

theorem armpmu_event_init_branch_stack:
  "(has_branch_stack (heap event) \<and>
    (cpu (heap event) = - 1 \<or> cpumask_test_cpu (cpu (heap event)) (supported_cpus armpmu))
      \<longrightarrow> armpmu_event_init armpmu stack heap event = (- EOPNOTSUPP, heap)) \<and>
   (cpu (heap event) \<noteq> - 1 \<and> \<not> cpumask_test_cpu (cpu (heap event)) (supported_cpus armpmu)
      \<longrightarrow> armpmu_event_init armpmu stack heap event = (- ENOENT, heap))"
  by (auto simp: armpmu_event_init_def)

theorem armpmu_event_init_branch_stack_witness:
  "armpmu_event_init pmu_example hw_events_example
       (\<lambda>r. branch_event_example\<lparr>cpu := - 1\<rparr>) 0 =
     (- EOPNOTSUPP, \<lambda>r. branch_event_example\<lparr>cpu := - 1\<rparr>) \<and>
   armpmu_event_init (pmu_example\<lparr>map_event := (\<lambda>e. - ENOENT)\<rparr>) hw_events_example
       (\<lambda>r. branch_event_example\<lparr>cpu := 2\<rparr>) 0 =
     (- EOPNOTSUPP, \<lambda>r. branch_event_example\<lparr>cpu := 2\<rparr>) \<and>
   armpmu_event_init pmu_example hw_events_example (\<lambda>r. branch_event_example) 0 =
     (- ENOENT, \<lambda>r. branch_event_example)"
  using armpmu_event_init_branch_stack [of "\<lambda>r. branch_event_example\<lparr>cpu := - 1\<rparr>" 0
      pmu_example hw_events_example]
    armpmu_event_init_branch_stack [of "\<lambda>r. branch_event_example\<lparr>cpu := 2\<rparr>" 0
      "pmu_example\<lparr>map_event := (\<lambda>e. - ENOENT)\<rparr>" hw_events_example]
    armpmu_event_init_branch_stack [of "\<lambda>r. branch_event_example" 0
      pmu_example hw_events_example]
  by (simp add: has_branch_stack_def branch_event_example_def event_example_def attr_example_def
      pmu_example_def cpumask_test_cpu_def)

text \<open>
  The claim as first stated fails: a branch-stack request bound to core 5, which the
  example bank does not serve, is rejected with \<open>-ENOENT\<close>.
\<close>

theorem armpmu_event_init_branch_stack_counterexample:
  "has_branch_stack branch_event_example \<and>
   fst (armpmu_event_init pmu_example hw_events_example (\<lambda>r. branch_event_example) 0) =
     - ENOENT \<and>
   fst (armpmu_event_init pmu_example hw_events_example (\<lambda>r. branch_event_example) 0) \<noteq>
     - EOPNOTSUPP"
  by (simp add: armpmu_event_init_def has_branch_stack_def branch_event_example_def
      event_example_def attr_example_def pmu_example_def cpumask_test_cpu_def
      ENOENT_def EOPNOTSUPP_def)

section \<open>Properties of the legacy queries\<close>

lemma armpmu_register_ok: "fst (armpmu_register env p oprofile) = 0 \<longleftrightarrow> registers (env, p)"
  by (auto simp: armpmu_register_def cpu_pmu_init_def registers_def Let_def)

lemma armpmu_register_global:
  "snd (armpmu_register env p oprofile) =
     (if registers (env, p) \<and> oprofile = None then Some p else oprofile)"
  by (auto simp: armpmu_register_def cpu_pmu_init_def registers_def Let_def)

lemma register_all_set: "register_all regs (Some q) = Some q"
  by (induction regs) (simp_all add: armpmu_register_global)

lemma register_all_first:
  "register_all regs None = map_option snd (find registers regs)"
proof (induction regs)
  case Nil
  show ?case by simp
next
  case (Cons r regs)
  show ?case
  proof (cases "registers r")
    case True
    then have "snd (armpmu_register (fst r) (snd r) None) = Some (snd r)"
      using armpmu_register_global [of "fst r" "snd r" None] by simp
    with True show ?thesis by (simp add: register_all_set)
  next
    case False
    then have "snd (armpmu_register (fst r) (snd r) None) = None"
      using armpmu_register_global [of "fst r" "snd r" None] by simp
    with False Cons.IH show ?thesis by simp
  qed
qed

lemma register_all_append:
  "register_all (regs @ later) oprofile = register_all later (register_all regs oprofile)"
  by (induction regs arbitrary: oprofile) simp_all

text \<open>
  C10. With no bank registered the name query returns \<^verbatim>\<open>NULL\<close> and the counter query 0,
  and so they do after a run of registrations that all failed. A registration succeeds
  exactly when none of its three steps fails, and sets the global pointer only when it
  succeeds and the pointer is still \<^verbatim>\<open>NULL\<close>. After any run the pointer is the first bank
  whose registration succeeded, and both queries report that bank, whatever
  registrations follow.
\<close>

theorem perf_queries_first_registered:
  "perf_pmu_name mem None = None \<and> perf_num_counters mem None = 0 \<and>
   (fst (armpmu_register env p oprofile) = 0 \<longleftrightarrow> registers (env, p)) \<and>
   snd (armpmu_register env p oprofile) =
     (if registers (env, p) \<and> oprofile = None then Some p else oprofile) \<and>
   register_all regs None = map_option snd (find registers regs) \<and>
   (find registers regs = None \<longrightarrow>
      perf_pmu_name mem (register_all regs None) = None \<and>
      perf_num_counters mem (register_all regs None) = 0) \<and>
   (find registers regs = Some (env', q) \<longrightarrow>
      perf_pmu_name mem (register_all (regs @ later) None) = Some (name (mem q)) \<and>
      perf_num_counters mem (register_all (regs @ later) None) = int (num_events (mem q)))"
proof -
  have before: "perf_pmu_name mem None = None \<and> perf_num_counters mem None = 0"
    by (simp add: perf_pmu_name_def perf_num_counters_def)
  have none: "find registers regs = None \<longrightarrow>
      perf_pmu_name mem (register_all regs None) = None \<and>
      perf_num_counters mem (register_all regs None) = 0"
    by (simp add: register_all_first perf_pmu_name_def perf_num_counters_def)
  have later: "find registers regs = Some (env', q) \<longrightarrow>
      perf_pmu_name mem (register_all (regs @ later) None) = Some (name (mem q)) \<and>
      perf_num_counters mem (register_all (regs @ later) None) = int (num_events (mem q))"
  proof
    assume "find registers regs = Some (env', q)"
    then have "register_all regs None = Some q"
      by (simp add: register_all_first)
    then have "register_all (regs @ later) None = Some q"
      by (simp add: register_all_append register_all_set)
    then show "perf_pmu_name mem (register_all (regs @ later) None) = Some (name (mem q)) \<and>
      perf_num_counters mem (register_all (regs @ later) None) = int (num_events (mem q))"
      by (simp add: perf_pmu_name_def perf_num_counters_def)
  qed
  show ?thesis
    using before none later armpmu_register_ok [of env p oprofile]
      armpmu_register_global [of env p oprofile] register_all_first [of regs]
    by blast
qed

theorem perf_queries_first_registered_witness:
  "perf_pmu_name banks_example (register_all [(env_fail, 7)] None) = None \<and>
   perf_num_counters banks_example (register_all [(env_fail, 7)] None) = 0 \<and>
   perf_pmu_name banks_example
       (register_all ([(env_fail, 7), (env_ok, 8)] @ [(env_ok, 9)]) None) = Some ''armv8_pmuv3'' \<and>
   perf_num_counters banks_example
       (register_all ([(env_fail, 7), (env_ok, 8)] @ [(env_ok, 9)]) None) = 3"
  using perf_queries_first_registered [of banks_example env_fail 7 None "[(env_fail, 7)]" env_ok 8 "[]"]
    perf_queries_first_registered [of banks_example env_ok 8 None "[(env_fail, 7), (env_ok, 8)]"
      env_ok 8 "[(env_ok, 9)]"]
  by (simp add: registers_def env_ok_def env_fail_def banks_example_def pmu_example_def
      armpmu_register_def cpu_pmu_init_def perf_pmu_name_def perf_num_counters_def Let_def)

section \<open>Properties of adding an event\<close>

lemma first_fit_full:
  "first_fit 3 (hw_events_example\<lparr>used_mask := {0, 1, 2}\<rparr>) event =
     (- 11, hw_events_example\<lparr>used_mask := {0, 1, 2}\<rparr>)"
  by (simp add: first_fit_def upt_rec)

text \<open>
  C5 (as amended). On a core outside the supported mask \<^verbatim>\<open>armpmu_add\<close> returns
  \<open>-ENOENT\<close>, the code the event mapper returns for an unsupported event, and changes
  nothing. When the slot strategy returns a negative index, \<^verbatim>\<open>armpmu_add\<close> returns that
  index and writes nothing of its own: the per-core state is what the strategy left, and
  is unchanged when the strategy left it unchanged.
\<close>

theorem armpmu_add_rejects:
  "(\<not> cpumask_test_cpu (int this_cpu) (supported_cpus armpmu) \<longrightarrow>
      armpmu_add armpmu this_cpu event flags heap h = (- ENOENT, armpmu, heap, h)) \<and>
   (cpumask_test_cpu (int this_cpu) (supported_cpus armpmu) \<and>
    fst (get_event_idx armpmu (hw_events armpmu this_cpu) (heap event)) < 0 \<longrightarrow>
      armpmu_add armpmu this_cpu event flags heap h =
        (fst (get_event_idx armpmu (hw_events armpmu this_cpu) (heap event)),
         armpmu\<lparr>hw_events := (hw_events armpmu)
           (this_cpu := snd (get_event_idx armpmu (hw_events armpmu this_cpu) (heap event)))\<rparr>,
         heap, h)) \<and>
   (cpumask_test_cpu (int this_cpu) (supported_cpus armpmu) \<and>
    fst (get_event_idx armpmu (hw_events armpmu this_cpu) (heap event)) < 0 \<and>
    snd (get_event_idx armpmu (hw_events armpmu this_cpu) (heap event)) = hw_events armpmu this_cpu
      \<longrightarrow>
      armpmu_add armpmu this_cpu event flags heap h =
        (fst (get_event_idx armpmu (hw_events armpmu this_cpu) (heap event)), armpmu, heap, h))"
  by (simp add: armpmu_add_def split_beta Let_def)

lemma pmu_example_sel:
  "supported_cpus pmu_example = {0, 1, 2, 3}"
  "get_event_idx pmu_example = first_fit 3"
  "hw_events pmu_example c = hw_events_example"
  "num_events pmu_example = 3"
  "max_period pmu_example = 0xFFFFFFFF"
  "pmu_id pmu_example = 1"
  by (simp_all add: pmu_example_def)

lemma pmu_full_example_sel:
  "supported_cpus pmu_full_example = {0, 1, 2, 3}"
  "get_event_idx pmu_full_example = first_fit 3"
  "hw_events pmu_full_example c = hw_events_example\<lparr>used_mask := {0, 1, 2}\<rparr>"
  by (simp_all add: pmu_full_example_def pmu_example_def)

theorem armpmu_add_rejects_witness:
  "armpmu_add pmu_example 5 0 PERF_EF_START (\<lambda>r. event_example) 0 =
     (- ENOENT, pmu_example, \<lambda>r. event_example, 0) \<and>
   armpmu_add pmu_full_example 2 0 PERF_EF_START (\<lambda>r. event_example) 0 =
     (- 11, pmu_full_example, \<lambda>r. event_example, 0)"
proof -
  have unsupported: "armpmu_add pmu_example 5 0 PERF_EF_START (\<lambda>r. event_example) 0 =
      (- ENOENT, pmu_example, \<lambda>r. event_example, 0)"
    using armpmu_add_rejects [of 5 pmu_example 0 PERF_EF_START "\<lambda>r. event_example" 0]
    by (simp add: cpumask_test_cpu_def pmu_example_sel)
  have idx: "get_event_idx pmu_full_example (hw_events pmu_full_example 2) event_example =
      (- 11, hw_events pmu_full_example 2)"
    by (simp add: pmu_full_example_sel first_fit_def upt_rec)
  have hyps: "cpumask_test_cpu (int 2) (supported_cpus pmu_full_example) \<and>
      fst (get_event_idx pmu_full_example (hw_events pmu_full_example 2) event_example) < 0 \<and>
      snd (get_event_idx pmu_full_example (hw_events pmu_full_example 2) event_example) =
        hw_events pmu_full_example 2"
    unfolding idx by (simp add: cpumask_test_cpu_def pmu_full_example_sel)
  have "armpmu_add pmu_full_example 2 0 PERF_EF_START (\<lambda>r. event_example) 0 =
      (fst (get_event_idx pmu_full_example (hw_events pmu_full_example 2) event_example),
       pmu_full_example, \<lambda>r. event_example, 0)"
    using armpmu_add_rejects [of 2 pmu_full_example 0 PERF_EF_START "\<lambda>r. event_example" 0]
      hyps by blast
  then have full: "armpmu_add pmu_full_example 2 0 PERF_EF_START (\<lambda>r. event_example) 0 =
      (- 11, pmu_full_example, \<lambda>r. event_example, 0)"
    unfolding idx by simp
  show ?thesis using unsupported full by blast
qed

text \<open>
  The claim as first stated fails: on core 5, outside the mask, the result is \<open>-ENOENT\<close>,
  which is not the kernel's "no such device" code and is the very value the cache mapper
  returns for a missing table.
\<close>

theorem armpmu_add_nosuchdevice_counterexample:
  "\<not> cpumask_test_cpu 5 (supported_cpus pmu_example) \<and>
   fst (armpmu_add pmu_example 5 0 PERF_EF_START (\<lambda>r. event_example) 0) = - ENOENT \<and>
   fst (armpmu_add pmu_example 5 0 PERF_EF_START (\<lambda>r. event_example) 0) \<noteq> - ENODEV \<and>
   armpmu_map_cache_event abi_example None 0x010203 =
     fst (armpmu_add pmu_example 5 0 PERF_EF_START (\<lambda>r. event_example) 0)"
  by (simp add: armpmu_add_def cpumask_test_cpu_def pmu_example_def ENOENT_def ENODEV_def
      armpmu_map_cache_event_def abi_example_def Let_def)

section \<open>Properties of the interrupt request\<close>












section \<open>Properties of group validation\<close>












section \<open>Properties of the power-state transitions\<close>





subsection \<open>Entry\<close>






subsection \<open>Exit\<close>








subsection \<open>The notifier\<close>























end
